theory Spec2Isabelle
  imports Main "HOL-Library.Sublist"
begin

section \<open>Python strings\<close>

text \<open>
  Python \<open>str\<close> values are modelled as \<open>string\<close>.  The helpers below are the
  string operations the sources use: \<open>s.startswith(p)\<close>, \<open>p in s\<close>,
  \<open>s.split(sep, 1)[1]\<close>, \<open>s.rstrip('/')\<close> and \<open>s.replace(a, b)\<close>.
\<close>

fun startswith :: "string \<Rightarrow> string \<Rightarrow> bool" where
  "startswith s [] = True"
| "startswith [] (p # ps) = False"
| "startswith (c # cs) (p # ps) = (c = p \<and> startswith cs ps)"

text \<open>\<open>str_in p s\<close> is Python's \<open>p in s\<close>.\<close>

fun str_in :: "string \<Rightarrow> string \<Rightarrow> bool" where
  "str_in p [] = (p = [])"
| "str_in p (c # cs) = (startswith (c # cs) p \<or> str_in p cs)"

text \<open>
  \<open>split_after sep s\<close> is \<open>s.split(sep, 1)[1]\<close>: the text after the first
  occurrence of \<open>sep\<close>.  Without an occurrence the Python list has one element
  and the index raises \<open>IndexError\<close>; that is \<open>None\<close> here.
\<close>

fun split_after :: "string \<Rightarrow> string \<Rightarrow> string option" where
  "split_after sep [] = (if sep = [] then Some [] else None)"
| "split_after sep (c # cs) =
     (if startswith (c # cs) sep then Some (drop (length sep) (c # cs))
      else split_after sep cs)"

definition rstrip :: "char \<Rightarrow> string \<Rightarrow> string" where
  "rstrip ch s = rev (dropWhile (\<lambda>c. c = ch) (rev s))"

section \<open>Python values, exceptions and library functions\<close>

text \<open>
  The build data are what \<open>json.loads\<close> returns: \<open>None\<close>, booleans, integers,
  strings, lists and dictionaries (an association list; the first binding of a key is
  the dictionary's entry).
\<close>

datatype json = JNull | JBool bool | JInt int | JStr string | JArr "json list"
  | JObj "(string \<times> json) list"

text \<open>Python's truth value of an object, as \<open>if x:\<close> and \<open>not x\<close> test it.\<close>

fun truthy :: "json \<Rightarrow> bool" where
  "truthy JNull = False"
| "truthy (JBool b) = b"
| "truthy (JInt i) = (i \<noteq> 0)"
| "truthy (JStr s) = (s \<noteq> [])"
| "truthy (JArr xs) = (xs \<noteq> [])"
| "truthy (JObj d) = (d \<noteq> [])"

text \<open>
  \<open>SystemExit\<close> is what \<open>sys.exit\<close> raises.  It derives from \<open>BaseException\<close>,
  not from \<open>Exception\<close>, so an \<open>except Exception\<close> clause catches every
  \<open>Raised e\<close> and no \<open>SystemExit n\<close>.
\<close>

datatype exn = RequestException | JSONDecodeError | AttributeError | TypeError
  | OverflowError | IOError

datatype failure = SystemExit int | Raised exn

text \<open>\<open>x.get(k, dflt)\<close>: only a dictionary has the method.\<close>

fun py_get :: "json \<Rightarrow> string \<Rightarrow> json \<Rightarrow> failure + json" where
  "py_get (JObj d) k dflt = Inr (case map_of d k of None \<Rightarrow> dflt | Some v \<Rightarrow> v)"
| "py_get x k dflt = Inl (Raised AttributeError)"

text \<open>\<open>for x in v\<close>: the elements of a list, the characters of a string, the keys of a
  dictionary; anything else is not iterable.\<close>

fun py_iter :: "json \<Rightarrow> failure + json list" where
  "py_iter (JArr xs) = Inr xs"
| "py_iter (JStr s) = Inr (map (\<lambda>c. JStr [c]) s)"
| "py_iter (JObj d) = Inr (map (\<lambda>kv. JStr (fst kv)) d)"
| "py_iter x = Inl (Raised TypeError)"

text \<open>
  A \<open>datetime\<close> is a number of microseconds since 1970-01-01T00:00:00 UTC (for an
  aware value, the instant; for a naive one, its wall-clock fields read as if UTC).
\<close>

datatype pydatetime = Naive int | Aware int

text \<open>An anchor element of a parsed page: \<open>tag.string\<close>, \<open>tag.get('href')\<close>,
  \<open>tag.get_text()\<close>.\<close>

record anchor =
  a_string :: "string option"
  a_href :: "string option"
  a_text :: string

text \<open>
  The library functions the code calls and that are not part of the repository:
  \<open>json.loads\<close> (\<open>None\<close>: it raises), \<open>datetime.fromisoformat\<close>
  (\<open>None\<close>: \<open>ValueError\<close>), \<open>datetime.isoformat\<close>, \<open>urllib.parse.urljoin\<close>
  on two strings, and the anchors \<open>BeautifulSoup(html, 'html.parser')\<close> finds in
  document order (\<open>None\<close>: the parser raises).
\<close>

record lib =
  json_loads :: "string \<Rightarrow> json option"
  fromisoformat :: "string \<Rightarrow> pydatetime option"
  isoformat :: "int \<Rightarrow> string"
  urljoin :: "string \<Rightarrow> string \<Rightarrow> string"
  html_anchors :: "string \<Rightarrow> anchor list option"

section \<open>The environment: network, cache files, clock, terminal\<close>

text \<open>
  A cache file holds a JSON document, text that \<open>json.load\<close> rejects
  (\<open>Unparseable\<close>) or cannot be opened or read (\<open>Unreadable\<close>, an \<open>IOError\<close>).
  Its modification time is in microseconds, on the time line of the clock.
\<close>

datatype fcontent = Unreadable | Unparseable | Doc json

record cache_file =
  mtime :: int
  content :: fcontent

text \<open>What the functions print.\<close>

datatype event =
    UsingCachedData string
  | ErrorFetchingJobHistory
  | ErrorNoAllBuilds
  | ErrorParsingJSON
  | ErrorFetchingSpyglass json
  | ErrorParsingHTML
  | WarningReadingCache string
  | WarningWritingCache string
  | WarningFailedToFetch string exn

text \<open>
  \<open>http_get url\<close> is the text of a 2xx response, \<open>None\<close> when
  \<open>requests.get\<close> or \<open>raise_for_status\<close> raises a \<open>RequestException\<close>.
  \<open>files\<close> is the cache directory by file name and \<open>writable\<close> says whether
  opening a name for writing succeeds.  Each \<open>datetime.now\<close> reads
  \<open>clock\<close> at the next tick.  \<open>fetched\<close> lists the URLs requested and
  \<open>printed\<close> the lines printed, both latest first.
\<close>

record world =
  http_get :: "string \<Rightarrow> string option"
  files :: "string \<Rightarrow> cache_file option"
  writable :: "string \<Rightarrow> bool"
  clock :: "nat \<Rightarrow> int"
  ticks :: nat
  fetched :: "string list"
  printed :: "event list"

definition print :: "event \<Rightarrow> world \<Rightarrow> world" where
  "print e w = w\<lparr>printed := e # printed w\<rparr>"

definition now :: "world \<Rightarrow> int \<times> world" where
  "now w = (clock w (ticks w), w\<lparr>ticks := Suc (ticks w)\<rparr>)"

definition requests_get :: "string \<Rightarrow> world \<Rightarrow> string option \<times> world" where
  "requests_get url w = (http_get w url, w\<lparr>fetched := url # fetched w\<rparr>)"

text \<open>
  The bounds of \<open>datetime\<close> (years 1 to 9999) and of \<open>timedelta\<close> (at most
  999999999 days either way); beyond them the constructors and the arithmetic raise
  \<open>OverflowError\<close>.
\<close>

definition datetime_min :: int where
  "datetime_min = - 62135596800000000"

definition datetime_max :: int where
  "datetime_max = 253402300799999999"

definition timedelta_hours :: "int \<Rightarrow> int option" where
  "timedelta_hours h =
     (if - 999999999 \<le> h div 24 \<and> h div 24 \<le> 999999999 then Some (h * 3600000000)
      else None)"

definition datetime_sub :: "int \<Rightarrow> int \<Rightarrow> int option" where
  "datetime_sub t d =
     (if datetime_min \<le> t - d \<and> t - d \<le> datetime_max then Some (t - d) else None)"

section \<open>prow/prow\_crawler.py and prow/generate\_gsutil\_commands.py\<close>

text \<open>
  \<open>convert_artifacts_url_to_gcs_path\<close>, the same body in both files: the result is
  \<open>None\<close> unless both substrings occur in the URL.
\<close>

definition convert_artifacts_url_to_gcs_path :: "string \<Rightarrow> string option" where
  "convert_artifacts_url_to_gcs_path artifacts_url =
     (if str_in ''gcsweb-ci'' artifacts_url \<and> str_in ''/gcs/'' artifacts_url then
        (case split_after ''/gcs/'' artifacts_url of
           None \<Rightarrow> None
         | Some gcs_path_part \<Rightarrow> Some (''gs://'' @ rstrip CHR ''/'' gcs_path_part))
      else None)"

section \<open>list\_failed\_prs.py: ProwJobAnalyzer\<close>

definition BASE_URL :: string where
  "BASE_URL = ''https://prow.ci.openshift.org/job-history/gs/test-platform-results/logs/''"

definition PROW_BASE_URL :: string where
  "PROW_BASE_URL = ''https://prow.ci.openshift.org''"

text \<open>
  The monadic glue: a call returns its outcome and the environment it leaves, also when
  it raises.
\<close>

type_synonym 'a res = "(failure + 'a) \<times> world"

definition and_then :: "'a res \<Rightarrow> ('a \<Rightarrow> world \<Rightarrow> 'b res) \<Rightarrow> 'b res" where
  "and_then r f = (case r of (Inl e, w) \<Rightarrow> (Inl e, w) | (Inr x, w) \<Rightarrow> f x w)"

text \<open>\<open>fetch_job_history\<close>: a request that fails ends the process.\<close>

definition fetch_job_history :: "lib \<Rightarrow> string \<Rightarrow> world \<Rightarrow> string res" where
  "fetch_job_history L job_name w =
     (case requests_get (urljoin L BASE_URL job_name) w of
        (Some text, w1) \<Rightarrow> (Inr text, w1)
      | (None, w1) \<Rightarrow> (Inl (SystemExit 1), print ErrorFetchingJobHistory w1))"

text \<open>
  The search for \<open>var allBuilds = (.+);\<close>.  The dot matches every character but the
  newline and the group is greedy: at an occurrence of the prefix the group runs to the
  last semicolon of the line and is not empty; where there is none the search goes on
  to the right.
\<close>

definition greedy_group :: "string \<Rightarrow> string option" where
  "greedy_group r =
     (let k = length (takeWhile (\<lambda>c. c \<noteq> CHR '';'') (rev r)) in
      if k = length r then None
      else if length r - k - 1 = 0 then None
      else Some (take (length r - k - 1) r))"

fun re_search_all_builds :: "string \<Rightarrow> string option" where
  "re_search_all_builds [] = None"
| "re_search_all_builds (c # cs) =
     (if startswith (c # cs) ''var allBuilds = '' then
        (case greedy_group (takeWhile (\<lambda>c. c \<noteq> CHR 0x0A)
                 (drop (length ''var allBuilds = '') (c # cs))) of
           Some g \<Rightarrow> Some g
         | None \<Rightarrow> re_search_all_builds cs)
      else re_search_all_builds cs)"

text \<open>
  \<open>extract_builds_json\<close>: every way of failing (no match, a decoding error, any
  other exception) prints and calls \<open>sys.exit(1)\<close>.
\<close>

definition extract_builds_json :: "lib \<Rightarrow> string \<Rightarrow> world \<Rightarrow> json res" where
  "extract_builds_json L html_content w =
     (case re_search_all_builds html_content of
        None \<Rightarrow> (Inl (SystemExit 1), print ErrorNoAllBuilds w)
      | Some json_str \<Rightarrow>
          (case json_loads L json_str of
             None \<Rightarrow> (Inl (SystemExit 1), print ErrorParsingJSON w)
           | Some builds_data \<Rightarrow> (Inr builds_data, w)))"

text \<open>\<open>get_failed_jobs\<close>: the loop over \<open>builds\<close>, then the function.\<close>

fun failed_loop :: "json list \<Rightarrow> failure + json list" where
  "failed_loop [] = Inr []"
| "failed_loop (build # builds) =
     (case py_get build ''Result'' JNull of
        Inl e \<Rightarrow> Inl e
      | Inr r \<Rightarrow>
          (case failed_loop builds of
             Inl e \<Rightarrow> Inl e
           | Inr failed_jobs \<Rightarrow>
               Inr (if r = JStr ''FAILURE'' then build # failed_jobs else failed_jobs)))"

definition get_failed_jobs :: "json \<Rightarrow> failure + json list" where
  "get_failed_jobs builds =
     (case py_iter builds of Inl e \<Rightarrow> Inl e | Inr bs \<Rightarrow> failed_loop bs)"

text \<open>
  \<open>fetch_spyglass_page\<close>: \<open>urljoin\<close> returns the base for a false link and raises
  \<open>TypeError\<close> for a true one that is no string; a failed request prints and gives
  \<open>None\<close>.
\<close>

definition fetch_spyglass_page :: "lib \<Rightarrow> json \<Rightarrow> world \<Rightarrow> string option res" where
  "fetch_spyglass_page L spyglass_link w =
     (case (case spyglass_link of
              JStr s \<Rightarrow> Some (urljoin L PROW_BASE_URL s)
            | x \<Rightarrow> if truthy x then None else Some PROW_BASE_URL) of
        None \<Rightarrow> (Inl (Raised TypeError), w)
      | Some full_url \<Rightarrow>
          (case requests_get full_url w of
             (Some text, w1) \<Rightarrow> (Inr (Some text), w1)
           | (None, w1) \<Rightarrow> (Inr None, print (ErrorFetchingSpyglass spyglass_link) w1)))"

text \<open>
  \<open>extract_artifacts_url\<close>: the first anchor whose string is \<open>Artifacts\<close>, when it
  has a non-empty target; otherwise the first anchor with a target that mentions
  \<open>gcsweb-ci\<close> or whose text mentions \<open>Artifacts\<close>.
\<close>

definition extract_artifacts_url :: "lib \<Rightarrow> string \<Rightarrow> world \<Rightarrow> string option \<times> world" where
  "extract_artifacts_url L html_content w =
     (case html_anchors L html_content of
        None \<Rightarrow> (None, print ErrorParsingHTML w)
      | Some links \<Rightarrow>
          (let fallback =
                 (case find (\<lambda>link. case a_href link of
                                  None \<Rightarrow> False
                                | Some h \<Rightarrow> str_in ''gcsweb-ci'' h \<or> str_in ''Artifacts'' (a_text link))
                         links of
                    None \<Rightarrow> None
                  | Some link \<Rightarrow> a_href link)
           in (case find (\<lambda>link. a_string link = Some ''Artifacts'') links of
                 None \<Rightarrow> (fallback, w)
               | Some artifacts_link \<Rightarrow>
                   (case a_href artifacts_link of
                      None \<Rightarrow> (fallback, w)
                    | Some h \<Rightarrow> if h \<noteq> [] then (Some h, w) else (fallback, w)))))"

section \<open>list\_failed\_prs.py: time window\<close>

definition construct_full_job_name :: "string \<Rightarrow> string \<Rightarrow> string" where
  "construct_full_job_name job_name release_version =
     ''periodic-ci-openshift-microshift-release-'' @ release_version @ ''-periodics-'' @ job_name"

text \<open>\<open>s.replace('Z', '+00:00')\<close> replaces every \<open>Z\<close>.\<close>

definition replace_Z :: "string \<Rightarrow> string" where
  "replace_Z s = concat (map (\<lambda>c. if c = CHR ''Z'' then ''+00:00'' else [c]) s)"

text \<open>
  \<open>parse_job_start_time\<close>: a value that is no string has no \<open>replace\<close>; the
  \<open>AttributeError\<close> and the parser's \<open>ValueError\<close> are both caught.
\<close>

fun parse_job_start_time :: "lib \<Rightarrow> json \<Rightarrow> pydatetime option" where
  "parse_job_start_time L (JStr s) = fromisoformat L (replace_Z s)"
| "parse_job_start_time L x = None"

text \<open>
  \<open>is_within_time_window\<close>.  The clock is read only after the start time has been
  parsed; the cutoff may overflow, and comparing a naive start time with the aware
  cutoff raises \<open>TypeError\<close>.  Neither exception is caught here.
\<close>

definition is_within_time_window :: "lib \<Rightarrow> json \<Rightarrow> int \<Rightarrow> world \<Rightarrow> bool res" where
  "is_within_time_window L start_time_str hours_back w =
     (if \<not> truthy start_time_str \<or> start_time_str = JStr ''Unknown'' then (Inr False, w)
      else
        (case parse_job_start_time L start_time_str of
           None \<Rightarrow> (Inr False, w)
         | Some start_time \<Rightarrow>
             (case now w of
                (t, w1) \<Rightarrow>
                  (case timedelta_hours hours_back of
                     None \<Rightarrow> (Inl (Raised OverflowError), w1)
                   | Some d \<Rightarrow>
                       (case datetime_sub t d of
                          None \<Rightarrow> (Inl (Raised OverflowError), w1)
                        | Some cutoff_time \<Rightarrow>
                            (case start_time of
                               Naive s \<Rightarrow> (Inl (Raised TypeError), w1)
                             | Aware s \<Rightarrow> (Inr (cutoff_time \<le> s), w1)))))))"

section \<open>list\_failed\_prs.py: the cache\<close>

text \<open>
  \<open>get_cache_file_path\<close>: the file's name in the cache directory.  Job names are
  ASCII, where \<open>\w\<close> is a letter, a digit or the underscore.
\<close>

definition is_word_char :: "char \<Rightarrow> bool" where
  "is_word_char c =
     (let n = (of_char c :: nat) in
      (97 \<le> n \<and> n \<le> 122) \<or> (65 \<le> n \<and> n \<le> 90) \<or> (48 \<le> n \<and> n \<le> 57) \<or> n = 95)"

definition get_cache_file_path :: "string \<Rightarrow> string" where
  "get_cache_file_path job_name =
     map (\<lambda>c. if is_word_char c \<or> c = CHR ''-'' then c else CHR ''_'') job_name @ ''.json''"

text \<open>\<open>is_cache_valid\<close>: the file exists and its age is below the maximum.\<close>

definition is_cache_valid :: "string \<Rightarrow> int \<Rightarrow> world \<Rightarrow> bool res" where
  "is_cache_valid cache_file max_age_hours w =
     (case files w cache_file of
        None \<Rightarrow> (Inr False, w)
      | Some f \<Rightarrow>
          (case now w of
             (t, w1) \<Rightarrow>
               (case timedelta_hours max_age_hours of
                  None \<Rightarrow> (Inl (Raised OverflowError), w1)
                | Some d \<Rightarrow> (Inr (t - mtime f < d), w1))))"

text \<open>
  \<open>load_cached_job_data\<close>, called with the default maximum age of one hour.  Python's
  \<open>None\<close> is \<open>JNull\<close>.  Only \<open>IOError\<close> and \<open>JSONDecodeError\<close> are caught: a
  document that is no dictionary raises \<open>AttributeError\<close> to the caller.
\<close>

definition load_cached_job_data :: "string \<Rightarrow> world \<Rightarrow> json res" where
  "load_cached_job_data job_name w =
     (let cache_file = get_cache_file_path job_name in
      and_then (is_cache_valid cache_file 1 w) (\<lambda>valid w1.
        if \<not> valid then (Inr JNull, w1)
        else
          (case files w1 cache_file of
             None \<Rightarrow> (Inr JNull, print (WarningReadingCache cache_file) w1)
           | Some f \<Rightarrow>
               (case content f of
                  Unreadable \<Rightarrow> (Inr JNull, print (WarningReadingCache cache_file) w1)
                | Unparseable \<Rightarrow> (Inr JNull, print (WarningReadingCache cache_file) w1)
                | Doc data \<Rightarrow> (py_get data ''builds'' (JArr []), w1)))))"

text \<open>
  \<open>save_job_data_to_cache\<close>: the time stamp is taken before the file is opened, the
  file's modification time when it is written.
\<close>

definition save_job_data_to_cache :: "lib \<Rightarrow> string \<Rightarrow> json \<Rightarrow> world \<Rightarrow> world" where
  "save_job_data_to_cache L job_name builds_data w =
     (let cache_file = get_cache_file_path job_name in
      case now w of
        (t, w1) \<Rightarrow>
          if writable w1 cache_file then
            (case now w1 of
               (m, w2) \<Rightarrow>
                 w2\<lparr>files := (files w2)(cache_file \<mapsto>
                      \<lparr>mtime = m,
                       content = Doc (JObj [(''job_name'', JStr job_name),
                                            (''cached_at'', JStr (isoformat L t)),
                                            (''builds'', builds_data)])\<rparr>)\<rparr>)
          else print (WarningWritingCache cache_file) w1)"

text \<open>
  The first block of \<open>count_failed_jobs_in_window\<close>, repeated word for word in
  \<open>get_latest_failed_job\<close>: the builds from the cache, else from the dashboard.
\<close>

definition fetch_builds :: "lib \<Rightarrow> string \<Rightarrow> bool \<Rightarrow> world \<Rightarrow> json res" where
  "fetch_builds L job_name use_cache w =
     and_then (if use_cache then load_cached_job_data job_name w else (Inr JNull, w))
       (\<lambda>builds w1.
          let w2 = (if use_cache \<and> truthy builds then print (UsingCachedData job_name) w1
                    else w1)
          in if builds = JNull then
               and_then (fetch_job_history L job_name w2) (\<lambda>html_content w3.
               and_then (extract_builds_json L html_content w3) (\<lambda>fresh w4.
                 (Inr fresh,
                  if use_cache then save_job_data_to_cache L job_name fresh w4 else w4)))
             else (Inr builds, w2))"

section \<open>list\_failed\_prs.py: count\_failed\_jobs\_in\_window\<close>

text \<open>The loop that keeps the failed jobs inside the window, in their order.\<close>

fun window_loop :: "lib \<Rightarrow> int \<Rightarrow> json list \<Rightarrow> world \<Rightarrow> json list res" where
  "window_loop L hours_back [] w = (Inr [], w)"
| "window_loop L hours_back (job # jobs) w =
     (case py_get job ''Started'' (JStr ''Unknown'') of
        Inl e \<Rightarrow> (Inl e, w)
      | Inr start_time \<Rightarrow>
          (case is_within_time_window L start_time hours_back w of
             (Inl e, w1) \<Rightarrow> (Inl e, w1)
           | (Inr keep, w1) \<Rightarrow>
               (case window_loop L hours_back jobs w1 of
                  (Inl e, w2) \<Rightarrow> (Inl e, w2)
                | (Inr rest, w2) \<Rightarrow> (Inr (if keep then job # rest else rest), w2))))"

text \<open>The pull-request numbers of a build: the true \<open>number\<close> entries of
  \<open>Refs.pulls\<close>.\<close>

fun numbers_loop :: "json list \<Rightarrow> failure + json list" where
  "numbers_loop [] = Inr []"
| "numbers_loop (pull # pulls) =
     (case py_get pull ''number'' JNull of
        Inl e \<Rightarrow> Inl e
      | Inr n \<Rightarrow>
          (case numbers_loop pulls of
             Inl e \<Rightarrow> Inl e
           | Inr ns \<Rightarrow> Inr (if truthy n then n # ns else ns)))"

definition pr_numbers_of :: "json \<Rightarrow> failure + json list" where
  "pr_numbers_of latest_failed =
     (case py_get latest_failed ''Refs'' (JObj []) of
        Inl e \<Rightarrow> Inl e
      | Inr refs \<Rightarrow>
          if truthy refs then
            (case py_get refs ''pulls'' (JArr []) of
               Inl e \<Rightarrow> Inl e
             | Inr pulls \<Rightarrow>
                 (case py_iter pulls of Inl e \<Rightarrow> Inl e | Inr ps \<Rightarrow> numbers_loop ps))
          else Inr [])"

record latest_info =
  build_id :: json
  started :: json
  duration :: json
  spyglass_url :: string
  artifacts_url :: string
  pr_numbers :: "json list"
  result :: json

record failure_detail =
  fd_build_id :: json
  fd_started :: json
  fd_duration :: json
  fd_result :: json

record summary =
  job_name :: string
  total_failures :: nat
  latest_failed :: "latest_info option"
  failure_details :: "failure_detail list"

text \<open>The artifacts URL of the latest failure; the empty string when there is no
  link, no page or no anchor.\<close>

definition resolve_artifacts_url :: "lib \<Rightarrow> json \<Rightarrow> world \<Rightarrow> string res" where
  "resolve_artifacts_url L spyglass_link w =
     (if truthy spyglass_link then
        and_then (fetch_spyglass_page L spyglass_link w) (\<lambda>html_content w1.
          case html_content of
            None \<Rightarrow> (Inr [], w1)
          | Some h \<Rightarrow>
              if h = [] then (Inr [], w1)
              else (case extract_artifacts_url L h w1 of
                      (None, w2) \<Rightarrow> (Inr [], w2)
                    | (Some u, w2) \<Rightarrow> (Inr u, w2)))
      else (Inr [], w))"

definition spyglass_url_of :: "lib \<Rightarrow> json \<Rightarrow> failure + string" where
  "spyglass_url_of L spyglass_link =
     (case spyglass_link of
        JStr s \<Rightarrow> Inr (if s = [] then [] else urljoin L PROW_BASE_URL s)
      | x \<Rightarrow> if truthy x then Inl (Raised TypeError) else Inr [])"

definition latest_failed_info :: "lib \<Rightarrow> json \<Rightarrow> world \<Rightarrow> latest_info res" where
  "latest_failed_info L latest w =
     and_then (py_get latest ''ID'' (JStr ''Unknown''), w) (\<lambda>bid w.
     and_then (py_get latest ''SpyglassLink'' (JStr []), w) (\<lambda>spyglass_link w.
     and_then (resolve_artifacts_url L spyglass_link w) (\<lambda>aurl w.
     and_then (pr_numbers_of latest, w) (\<lambda>prs w.
     and_then (spyglass_url_of L spyglass_link, w) (\<lambda>surl w.
     and_then (py_get latest ''Started'' (JStr ''Unknown''), w) (\<lambda>st w.
     and_then (py_get latest ''Duration'' (JStr ''Unknown''), w) (\<lambda>du w.
     and_then (py_get latest ''Result'' (JStr ''Unknown''), w) (\<lambda>re w.
       (Inr \<lparr>build_id = bid, started = st, duration = du, spyglass_url = surl,
              artifacts_url = aurl, pr_numbers = prs, result = re\<rparr>, w)))))))))"

fun details_loop :: "json list \<Rightarrow> failure + failure_detail list" where
  "details_loop [] = Inr []"
| "details_loop (job # jobs) =
     (case py_get job ''ID'' (JStr ''Unknown'') of Inl e \<Rightarrow> Inl e | Inr i \<Rightarrow>
     (case py_get job ''Started'' (JStr ''Unknown'') of Inl e \<Rightarrow> Inl e | Inr st \<Rightarrow>
     (case py_get job ''Duration'' (JStr ''Unknown'') of Inl e \<Rightarrow> Inl e | Inr du \<Rightarrow>
     (case py_get job ''Result'' (JStr ''Unknown'') of Inl e \<Rightarrow> Inl e | Inr re \<Rightarrow>
     (case details_loop jobs of Inl e \<Rightarrow> Inl e | Inr ds \<Rightarrow>
        Inr (\<lparr>fd_build_id = i, fd_started = st, fd_duration = du, fd_result = re\<rparr> # ds))))))"

text \<open>The body of the \<open>try\<close> statement.\<close>

definition count_try :: "lib \<Rightarrow> string \<Rightarrow> int \<Rightarrow> bool \<Rightarrow> world \<Rightarrow> summary res" where
  "count_try L job hours_back use_cache w =
     and_then (fetch_builds L job use_cache w) (\<lambda>builds w.
     and_then (get_failed_jobs builds, w) (\<lambda>failed_jobs w.
     and_then (window_loop L hours_back failed_jobs w) (\<lambda>failed_jobs_in_window w.
     and_then (case failed_jobs_in_window of
                 [] \<Rightarrow> (Inr None, w)
               | latest # rest \<Rightarrow>
                   and_then (latest_failed_info L latest w) (\<lambda>i w. (Inr (Some i), w)))
       (\<lambda>latest_failed_info w.
     and_then (details_loop failed_jobs_in_window, w) (\<lambda>details w.
       (Inr \<lparr>job_name = job, total_failures = length failed_jobs_in_window,
              latest_failed = latest_failed_info, failure_details = details\<rparr>, w))))))"

text \<open>
  \<open>count_failed_jobs_in_window\<close>: the handler \<open>except Exception\<close> turns every
  exception into the empty summary; \<open>SystemExit\<close> passes through it.
\<close>

definition count_failed_jobs_in_window ::
  "lib \<Rightarrow> string \<Rightarrow> int \<Rightarrow> bool \<Rightarrow> world \<Rightarrow> summary res" where
  "count_failed_jobs_in_window L job hours_back use_cache w =
     (case count_try L job hours_back use_cache w of
        (Inl (Raised e), w1) \<Rightarrow>
          (Inr \<lparr>job_name = job, total_failures = 0, latest_failed = None,
                 failure_details = []\<rparr>,
           print (WarningFailedToFetch job e) w1)
      | (Inl (SystemExit n), w1) \<Rightarrow> (Inl (SystemExit n), w1)
      | (Inr s, w1) \<Rightarrow> (Inr s, w1))"

section \<open>list\_failed\_prs.py: the batches\<close>

text \<open>
  The loops of \<open>get_multiple_periodic_jobs_counts\<close> and
  \<open>get_multi_release_counts\<close> over \<open>job_names\<close>, the list that
  \<open>fetch_prow_job_names\<close> returned.  Their progress lines are not recorded.
\<close>

fun counts_loop ::
  "lib \<Rightarrow> string \<Rightarrow> int \<Rightarrow> bool \<Rightarrow> string list \<Rightarrow> world \<Rightarrow> summary list res" where
  "counts_loop L release_version hours_back use_cache [] w = (Inr [], w)"
| "counts_loop L release_version hours_back use_cache (name # names) w =
     (case count_failed_jobs_in_window L
             (construct_full_job_name name release_version) hours_back use_cache w of
        (Inl e, w1) \<Rightarrow> (Inl e, w1)
      | (Inr job_count_data, w1) \<Rightarrow>
          (case counts_loop L release_version hours_back use_cache names w1 of
             (Inl e, w2) \<Rightarrow> (Inl e, w2)
           | (Inr job_counts, w2) \<Rightarrow> (Inr (job_count_data # job_counts), w2)))"

definition get_multiple_periodic_jobs_counts ::
  "lib \<Rightarrow> string list \<Rightarrow> string \<Rightarrow> string option \<Rightarrow> int \<Rightarrow> bool \<Rightarrow> world
     \<Rightarrow> summary list res" where
  "get_multiple_periodic_jobs_counts L job_names release_version specific_job hours_back
       use_cache w =
     (case (case specific_job of None \<Rightarrow> None | Some j \<Rightarrow> if j = [] then None else Some j) of
        Some j \<Rightarrow>
          and_then (count_failed_jobs_in_window L (construct_full_job_name j release_version)
                      hours_back use_cache w)
            (\<lambda>c w1. (Inr [c], w1))
      | None \<Rightarrow> counts_loop L release_version hours_back use_cache job_names w)"

section \<open>The specification's reading of the storage-path shape\<close>

text \<open>
  The specification recognises a URL that contains the artifact-gateway segment
  (\<open>gcsweb-ci\<close> in the code) followed by \<open>/gcs/\<close>.
\<close>

definition spec_gateway_shape :: "string \<Rightarrow> bool" where
  "spec_gateway_shape url =
     (case split_after ''gcsweb-ci'' url of None \<Rightarrow> False | Some rest \<Rightarrow> str_in ''/gcs/'' rest)"

section \<open>A reference instance of the library and of the environment\<close>

text \<open>
  A reading of \<open>datetime.fromisoformat\<close> on the layout of the docstring's example,
  \<open>YYYY-MM-DDTHH:MM:SS\<close> with an optional offset \<open>+HH:MM\<close> or \<open>-HH:MM\<close>:
  without the offset the value is naive.  Layouts the library accepts beyond this one
  are rejected here; the instance serves to compute the concrete instants.
\<close>

definition digit :: "char \<Rightarrow> int option" where
  "digit c = (let n = (of_char c :: nat) in if 48 \<le> n \<and> n \<le> 57 then Some (int n - 48) else None)"

fun digits_acc :: "int \<Rightarrow> string \<Rightarrow> int option" where
  "digits_acc acc [] = Some acc"
| "digits_acc acc (c # cs) =
     (case digit c of None \<Rightarrow> None | Some d \<Rightarrow> digits_acc (10 * acc + d) cs)"

definition number :: "string \<Rightarrow> int option" where
  "number s = (if s = [] then None else digits_acc 0 s)"

definition is_leap :: "int \<Rightarrow> bool" where
  "is_leap y = (y mod 4 = 0 \<and> (y mod 100 \<noteq> 0 \<or> y mod 400 = 0))"

definition days_in_month :: "int \<Rightarrow> int \<Rightarrow> int" where
  "days_in_month y m =
     (if m = 2 then (if is_leap y then 29 else 28)
      else if m = 4 \<or> m = 6 \<or> m = 9 \<or> m = 11 then 30 else 31)"

definition days_from_civil :: "int \<Rightarrow> int \<Rightarrow> int \<Rightarrow> int" where
  "days_from_civil y m d =
     (let y1 = (if m \<le> 2 then y - 1 else y);
          era = y1 div 400;
          yoe = y1 - era * 400;
          doy = (153 * (if 2 < m then m - 3 else m + 9) + 2) div 5 + d - 1;
          doe = yoe * 365 + yoe div 4 - yoe div 100 + doy
      in era * 146097 + doe - 719468)"

definition utc_offset :: "string \<Rightarrow> int option option" where
  "utc_offset s =
     (if s = [] then Some None
      else if length s = 6 \<and> (s ! 0 = CHR ''+'' \<or> s ! 0 = CHR ''-'') \<and> s ! 3 = CHR '':'' then
        (case (number (take 2 (drop 1 s)), number (drop 4 s)) of
           (Some h, Some m) \<Rightarrow>
             if h < 24 \<and> m < 60
             then Some (Some ((if s ! 0 = CHR ''-'' then - 1 else 1) * (h * 3600 + m * 60)))
             else None
         | _ \<Rightarrow> None)
      else None)"

definition fromisoformat_seconds :: "string \<Rightarrow> pydatetime option" where
  "fromisoformat_seconds s =
     (if length s < 19 \<or> s ! 4 \<noteq> CHR ''-'' \<or> s ! 7 \<noteq> CHR ''-'' \<or> s ! 10 \<noteq> CHR ''T''
         \<or> s ! 13 \<noteq> CHR '':'' \<or> s ! 16 \<noteq> CHR '':'' then None
      else
        (case (number (take 4 s), number (take 2 (drop 5 s)), number (take 2 (drop 8 s)),
               number (take 2 (drop 11 s)), number (take 2 (drop 14 s)),
               number (take 2 (drop 17 s)), utc_offset (drop 19 s)) of
           (Some y, Some mo, Some d, Some h, Some mi, Some sec, Some off) \<Rightarrow>
             if 1 \<le> y \<and> 1 \<le> mo \<and> mo \<le> 12 \<and> 1 \<le> d \<and> d \<le> days_in_month y mo
                \<and> h < 24 \<and> mi < 60 \<and> sec < 60 then
               (let secs = (days_from_civil y mo d * 86400 + h * 3600 + mi * 60 + sec)
                in case off of
                     None \<Rightarrow> Some (Naive (secs * 1000000))
                   | Some delta \<Rightarrow> Some (Aware ((secs - delta) * 1000000)))
             else None
         | _ \<Rightarrow> None))"

text \<open>
  A reading of \<open>json.loads\<close> on a fragment of JSON: \<open>null\<close>, \<open>true\<close>,
  \<open>false\<close>, integers, strings without escapes, arrays and objects (a repeated key
  keeps its place and takes the later value).  Documents outside the fragment are
  rejected here.  The first argument of the parsing functions bounds the recursion.
\<close>

definition is_ws :: "char \<Rightarrow> bool" where
  "is_ws c = (c = CHR '' '' \<or> c = CHR 0x09 \<or> c = CHR 0x0A \<or> c = CHR 0x0D)"

definition skip_ws :: "string \<Rightarrow> string" where
  "skip_ws s = dropWhile is_ws s"

definition is_digit :: "char \<Rightarrow> bool" where
  "is_digit c = (digit c \<noteq> None)"

text \<open>A string literal after its opening quote: plain characters up to the closing
  quote.\<close>

fun parse_string :: "string \<Rightarrow> (string \<times> string) option" where
  "parse_string [] = None"
| "parse_string (c # cs) =
     (if c = CHR 0x22 then Some ([], cs)
      else if c = CHR 0x5C \<or> (of_char c :: nat) < 32 then None
      else (case parse_string cs of None \<Rightarrow> None | Some (s, r) \<Rightarrow> Some (c # s, r)))"

definition parse_int :: "string \<Rightarrow> (json \<times> string) option" where
  "parse_int s =
     (let neg = (s \<noteq> [] \<and> hd s = CHR ''-'');
          t = (if neg then tl s else s);
          ds = takeWhile is_digit t;
          r = dropWhile is_digit t
      in if ds = [] \<or> (1 < length ds \<and> hd ds = CHR ''0'') then None
         else if r \<noteq> [] \<and> (hd r = CHR ''.'' \<or> hd r = CHR ''e'' \<or> hd r = CHR ''E'') then None
         else (case digits_acc 0 ds of
                 None \<Rightarrow> None
               | Some n \<Rightarrow> Some (JInt (if neg then - n else n), r)))"

fun dict_set :: "string \<Rightarrow> json \<Rightarrow> (string \<times> json) list \<Rightarrow> (string \<times> json) list" where
  "dict_set k v [] = [(k, v)]"
| "dict_set k v (p # ps) = (if fst p = k then (k, v) # ps else p # dict_set k v ps)"

fun parse_value :: "nat \<Rightarrow> string \<Rightarrow> (json \<times> string) option"
  and parse_items :: "nat \<Rightarrow> json list \<Rightarrow> string \<Rightarrow> (json \<times> string) option"
  and parse_member :: "nat \<Rightarrow> (string \<times> json) list \<Rightarrow> string \<Rightarrow> (json \<times> string) option"
  and parse_members :: "nat \<Rightarrow> (string \<times> json) list \<Rightarrow> string \<Rightarrow> (json \<times> string) option"
where
  "parse_value 0 s = None"
| "parse_value (Suc n) s =
     (let t = skip_ws s in
      if t = [] then None
      else if hd t = CHR ''['' then
        (if skip_ws (tl t) \<noteq> [] \<and> hd (skip_ws (tl t)) = CHR '']''
         then Some (JArr [], tl (skip_ws (tl t)))
         else (case parse_value n (tl t) of
                 None \<Rightarrow> None
               | Some (v, r) \<Rightarrow> parse_items n [v] r))
      else if hd t = CHR ''{'' then
        (if skip_ws (tl t) \<noteq> [] \<and> hd (skip_ws (tl t)) = CHR ''}''
         then Some (JObj [], tl (skip_ws (tl t)))
         else parse_member n [] (tl t))
      else if hd t = CHR 0x22 then
        (case parse_string (tl t) of None \<Rightarrow> None | Some (str, r) \<Rightarrow> Some (JStr str, r))
      else if startswith t ''null'' then Some (JNull, drop 4 t)
      else if startswith t ''true'' then Some (JBool True, drop 4 t)
      else if startswith t ''false'' then Some (JBool False, drop 5 t)
      else parse_int t)"
| "parse_items 0 acc s = None"
| "parse_items (Suc n) acc s =
     (let t = skip_ws s in
      if t = [] then None
      else if hd t = CHR '']'' then Some (JArr (rev acc), tl t)
      else if hd t = CHR '','' then
        (case parse_value n (tl t) of
           None \<Rightarrow> None
         | Some (v, r) \<Rightarrow> parse_items n (v # acc) r)
      else None)"
| "parse_member 0 acc s = None"
| "parse_member (Suc n) acc s =
     (let t = skip_ws s in
      if t = [] \<or> hd t \<noteq> CHR 0x22 then None
      else (case parse_string (tl t) of
              None \<Rightarrow> None
            | Some (k, r) \<Rightarrow>
                (let u = skip_ws r in
                 if u = [] \<or> hd u \<noteq> CHR '':'' then None
                 else (case parse_value n (tl u) of
                         None \<Rightarrow> None
                       | Some (v, r2) \<Rightarrow> parse_members n (dict_set k v acc) r2))))"
| "parse_members 0 acc s = None"
| "parse_members (Suc n) acc s =
     (let t = skip_ws s in
      if t = [] then None
      else if hd t = CHR ''}'' then Some (JObj acc, tl t)
      else if hd t = CHR '','' then parse_member n acc (tl t)
      else None)"

definition json_decode :: "string \<Rightarrow> json option" where
  "json_decode s =
     (case parse_value (Suc (2 * length s)) s of
        None \<Rightarrow> None
      | Some (v, r) \<Rightarrow> if skip_ws r = [] then Some v else None)"

text \<open>The library with these two readers, and a quiet environment whose clock stands at a
  given instant.\<close>

definition ref_lib :: lib where
  "ref_lib = \<lparr>json_loads = json_decode, fromisoformat = fromisoformat_seconds,
               isoformat = (\<lambda>t. []), urljoin = (\<lambda>b u. b @ u),
               html_anchors = (\<lambda>h. Some [])\<rparr>"

definition world_at :: "int \<Rightarrow> world" where
  "world_at t = \<lparr>http_get = (\<lambda>u. None), files = (\<lambda>p. None), writable = (\<lambda>p. True),
                 clock = (\<lambda>n. t), ticks = 0, fetched = [], printed = []\<rparr>"

text \<open>The cutoff \<open>now - timedelta(hours=h)\<close> exists: neither the \<open>timedelta\<close>
  nor the subtraction overflows.\<close>

definition cutoff_representable :: "int \<Rightarrow> int \<Rightarrow> bool" where
  "cutoff_representable t h =
     (- 999999999 \<le> h div 24 \<and> h div 24 \<le> 999999999
      \<and> datetime_min \<le> t - h * 3600000000 \<and> t - h * 3600000000 \<le> datetime_max)"

text \<open>An environment whose clock stands at \<open>t\<close> for the first two readings and
  at \<open>t + age\<close> afterwards, and the build list of the specification's example.\<close>

definition clock_aging :: "int \<Rightarrow> int \<Rightarrow> nat \<Rightarrow> int" where
  "clock_aging t age n = (if n < 2 then t else t + age)"

definition aging_world :: "int \<Rightarrow> int \<Rightarrow> world" where
  "aging_world t age = (world_at t)\<lparr>clock := clock_aging t age\<rparr>"

definition sample_json_text :: string where
  \<open>sample_json_text =
     ''[{"ID":"1","Result":"FAILURE","Started":"2025-10-21T00:31:08Z"}]''\<close>

definition sample_page :: string where
  "sample_page =
     ''<script>'' @ [CHR 0x0A] @ ''  var allBuilds = '' @ sample_json_text @ '';''
       @ [CHR 0x0A] @ ''</script>''"

definition sample_builds :: json where
  "sample_builds = JArr [JObj [(''ID'', JStr ''1''), (''Result'', JStr ''FAILURE''),
                               (''Started'', JStr ''2025-10-21T00:31:08Z'')]]"

text \<open>An environment whose dashboard serves the example page for the job \<open>job\<close>,
  an environment with a given cache file for that job, and a cache document as
  \<open>save_job_data_to_cache\<close> writes it.\<close>

definition dashboard_world :: "int \<Rightarrow> world" where
  "dashboard_world t =
     (world_at t)\<lparr>http_get := (\<lambda>u. if u = BASE_URL @ ''job'' then Some sample_page else None)\<rparr>"

definition with_file :: "cache_file \<Rightarrow> world \<Rightarrow> world" where
  "with_file f w = w\<lparr>files := (files w)(get_cache_file_path ''job'' \<mapsto> f)\<rparr>"

definition sample_entry :: json where
  "sample_entry = JObj [(''job_name'', JStr ''job''), (''cached_at'', JStr []),
                        (''builds'', sample_builds)]"

section \<open>The specification's reading of the per-job summary\<close>

text \<open>
  A failure is a record whose \<open>Result\<close> is the string \<open>FAILURE\<close>.  A record is
  in the window at the instant \<open>t\<close> when its start time is present, parses to an
  instant with a UTC offset and lies at or after \<open>t\<close> minus the hours.  \<open>field\<close>
  reads a field as the summary shows it, \<open>Unknown\<close> when it is missing.
\<close>

definition is_failure :: "json \<Rightarrow> bool" where
  "is_failure b = (py_get b ''Result'' JNull = Inr (JStr ''FAILURE''))"

definition spec_in_window :: "lib \<Rightarrow> int \<Rightarrow> int \<Rightarrow> json \<Rightarrow> bool" where
  "spec_in_window L t h b =
     (case py_get b ''Started'' (JStr ''Unknown'') of
        Inl e \<Rightarrow> False
      | Inr st \<Rightarrow>
          truthy st \<and> st \<noteq> JStr ''Unknown''
          \<and> (case parse_job_start_time L st of
                Some (Aware s) \<Rightarrow> t - h * 3600000000 \<le> s
              | _ \<Rightarrow> False))"

definition field :: "json \<Rightarrow> string \<Rightarrow> json" where
  "field b k = (case py_get b k (JStr ''Unknown'') of Inl e \<Rightarrow> JStr ''Unknown'' | Inr v \<Rightarrow> v)"

definition spec_detail :: "json \<Rightarrow> failure_detail" where
  "spec_detail b = \<lparr>fd_build_id = field b ''ID'', fd_started = field b ''Started'',
                    fd_duration = field b ''Duration'', fd_result = field b ''Result''\<rparr>"

text \<open>
  A build record as the specification's data model has it: a dictionary whose start time,
  if it parses, carries a UTC offset, whose detail link is a string or empty, and whose
  pull-request references can be read.
\<close>

definition well_formed_build :: "lib \<Rightarrow> json \<Rightarrow> bool" where
  "well_formed_build L b =
     (case b of
        JObj d \<Rightarrow>
          (case parse_job_start_time L (field b ''Started'') of
             Some (Naive s) \<Rightarrow> False
           | _ \<Rightarrow> True)
          \<and> (case py_get b ''SpyglassLink'' (JStr []) of
                Inr (JStr s) \<Rightarrow> True
              | Inr x \<Rightarrow> \<not> truthy x
              | Inl e \<Rightarrow> False)
          \<and> (case pr_numbers_of b of Inl e \<Rightarrow> False | Inr ns \<Rightarrow> True)
      | _ \<Rightarrow> False)"

definition link_of :: "json \<Rightarrow> json" where
  "link_of b = (case py_get b ''SpyglassLink'' (JStr []) of Inl e \<Rightarrow> JStr [] | Inr v \<Rightarrow> v)"

section \<open>Lemmas on strings\<close>

lemma startswith_iff: "startswith s p \<longleftrightarrow> (\<exists>r. s = p @ r)"
  by (induction s p rule: startswith.induct) auto

lemma str_in_iff: "str_in p s \<longleftrightarrow> (\<exists>a b. s = a @ p @ b)"
proof (induction s)
  case Nil
  then show ?case by auto
next
  case (Cons c cs)
  show ?case
  proof
    assume "str_in p (c # cs)"
    then consider "startswith (c # cs) p" | "str_in p cs" by auto
    then show "\<exists>a b. c # cs = a @ p @ b"
    proof cases
      case 1
      then obtain r where "c # cs = p @ r" by (auto simp: startswith_iff)
      then have "c # cs = [] @ p @ r" by simp
      then show ?thesis by blast
    next
      case 2
      then obtain a b where "cs = a @ p @ b" using Cons.IH by blast
      then have "c # cs = (c # a) @ p @ b" by simp
      then show ?thesis by blast
    qed
  next
    assume "\<exists>a b. c # cs = a @ p @ b"
    then obtain a b where ab: "c # cs = a @ p @ b" by blast
    show "str_in p (c # cs)"
    proof (cases a)
      case Nil
      then have "startswith (c # cs) p" using ab by (auto simp: startswith_iff)
      then show ?thesis by simp
    next
      case (Cons x xs)
      then have "cs = xs @ p @ b" using ab by simp
      then have "str_in p cs" using Cons.IH by blast
      then show ?thesis by simp
    qed
  qed
qed

lemma split_after_None_iff: "split_after sep s = None \<longleftrightarrow> \<not> str_in sep s"
  by (induction s) auto

lemma split_after_Some:
  "split_after sep s = Some r \<Longrightarrow> sep \<noteq> [] \<Longrightarrow>
     \<exists>pre. s = pre @ sep @ r \<and> \<not> str_in sep (pre @ butlast sep)"
proof (induction s)
  case Nil
  then show ?case by simp
next
  case (Cons c cs)
  show ?case
  proof (cases "startswith (c # cs) sep")
    case True
    then obtain t where t: "c # cs = sep @ t" by (auto simp: startswith_iff)
    from Cons.prems(1) True have "r = drop (length sep) (c # cs)" by simp
    then have "r = t" using t by simp
    moreover have "\<not> str_in sep ([] @ butlast sep)"
    proof
      assume "str_in sep ([] @ butlast sep)"
      then obtain a b where "butlast sep = a @ sep @ b" by (auto simp: str_in_iff)
      then have "length (butlast sep) = length (a @ sep @ b)" by simp
      then have e: "length sep - 1 = length a + (length sep + length b)" by simp
      have p: "0 < length sep" using Cons.prems(2) by simp
      from e p show False by arith
    qed
    ultimately show ?thesis using t by (intro exI[of _ "[]"]) simp
  next
    case False
    with Cons.prems have "split_after sep cs = Some r" by simp
    then obtain pre where pre: "cs = pre @ sep @ r" "\<not> str_in sep (pre @ butlast sep)"
      using Cons.IH Cons.prems(2) by blast
    have "\<not> startswith ((c # pre) @ butlast sep) sep"
    proof
      assume "startswith ((c # pre) @ butlast sep) sep"
      then obtain t where "(c # pre) @ butlast sep = sep @ t" by (auto simp: startswith_iff)
      then have "c # cs = sep @ t @ [last sep] @ r"
        using pre(1) Cons.prems(2)
        by (metis append.assoc append_Cons append_butlast_last_id append_Nil)
      then show False using False by (auto simp: startswith_iff)
    qed
    then have "\<not> str_in sep ((c # pre) @ butlast sep)" using pre(2) by simp
    then show ?thesis using pre(1) by (intro exI[of _ "c # pre"]) simp
  qed
qed

lemma rstrip_decomp:
  "\<exists>k. s = rstrip ch s @ replicate k ch \<and> (rstrip ch s = [] \<or> last (rstrip ch s) \<noteq> ch)"
proof -
  let ?r = "rev s"
  have 1: "?r = takeWhile (\<lambda>c. c = ch) ?r @ dropWhile (\<lambda>c. c = ch) ?r" by simp
  have 2: "takeWhile (\<lambda>c. c = ch) ?r = replicate (length (takeWhile (\<lambda>c. c = ch) ?r)) ch"
    by (rule replicate_eqI) (auto dest: set_takeWhileD)
  have "s = rev (dropWhile (\<lambda>c. c = ch) ?r) @ rev (takeWhile (\<lambda>c. c = ch) ?r)"
    by (metis 1 rev_append rev_rev_ident)
  then have "s = rstrip ch s @ replicate (length (takeWhile (\<lambda>c. c = ch) ?r)) ch"
    using 2 by (metis rstrip_def rev_replicate)
  moreover have "rstrip ch s = [] \<or> last (rstrip ch s) \<noteq> ch"
    unfolding rstrip_def
    by (metis (mono_tags, lifting) hd_dropWhile last_rev rev_is_Nil_conv)
  ultimately show ?thesis by blast
qed

section \<open>Storage-path conversion\<close>

text \<open>
  Claim C6, as the code has it.  The conversion answers \<open>None\<close> exactly when the
  URL lacks \<open>gcsweb-ci\<close> or lacks \<open>/gcs/\<close>; the order of the two is not
  looked at.  Otherwise the answer is \<open>gs://\<close> followed by what comes after the
  first \<open>/gcs/\<close>, without any of its trailing slashes.
\<close>

theorem convert_gcs_path_correct:
  "(convert_artifacts_url_to_gcs_path url = None
      \<longleftrightarrow> \<not> (str_in ''gcsweb-ci'' url \<and> str_in ''/gcs/'' url))
   \<and> (\<forall>p. convert_artifacts_url_to_gcs_path url = Some p \<longrightarrow>
         (\<exists>pre rest k. url = pre @ ''/gcs/'' @ rest @ replicate k CHR ''/''
            \<and> \<not> str_in ''/gcs/'' (pre @ ''/gcs'')
            \<and> (rest = [] \<or> last rest \<noteq> CHR ''/'')
            \<and> p = ''gs://'' @ rest))"
proof (intro conjI allI impI)
  show "convert_artifacts_url_to_gcs_path url = None
      \<longleftrightarrow> \<not> (str_in ''gcsweb-ci'' url \<and> str_in ''/gcs/'' url)"
    by (auto simp: convert_artifacts_url_to_gcs_path_def split_after_None_iff
             split: option.splits)
next
  fix p
  assume a: "convert_artifacts_url_to_gcs_path url = Some p"
  then obtain r where r: "split_after ''/gcs/'' url = Some r"
    and p: "p = ''gs://'' @ rstrip CHR ''/'' r"
    by (auto simp: convert_artifacts_url_to_gcs_path_def split: option.splits if_splits)
  from split_after_Some[OF r] obtain pre where
    pre: "url = pre @ ''/gcs/'' @ r" "\<not> str_in ''/gcs/'' (pre @ ''/gcs'')"
    by auto
  from rstrip_decomp[of r "CHR ''/''"] obtain k where
    k: "r = rstrip CHR ''/'' r @ replicate k CHR ''/''"
       "rstrip CHR ''/'' r = [] \<or> last (rstrip CHR ''/'' r) \<noteq> CHR ''/''"
    by blast
  have "url = pre @ ''/gcs/'' @ rstrip CHR ''/'' r @ replicate k CHR ''/''"
    using pre(1) k(1) by simp
  with pre(2) k(2) p
  show "\<exists>pre rest k. url = pre @ ''/gcs/'' @ rest @ replicate k CHR ''/''
            \<and> \<not> str_in ''/gcs/'' (pre @ ''/gcs'')
            \<and> (rest = [] \<or> last rest \<noteq> CHR ''/'')
            \<and> p = ''gs://'' @ rest"
    by blast
qed

theorem convert_gcs_path_correct_witness:
  "convert_artifacts_url_to_gcs_path
       ''https://gcsweb-ci.apps.ci.l2s4.p1.openshiftapps.com/gcs/bucket/logs/job/123/''
     = Some ''gs://bucket/logs/job/123''
   \<and> (\<exists>pre rest k.
         ''https://gcsweb-ci.apps.ci.l2s4.p1.openshiftapps.com/gcs/bucket/logs/job/123/''
           = pre @ ''/gcs/'' @ rest @ replicate k CHR ''/''
         \<and> \<not> str_in ''/gcs/'' (pre @ ''/gcs'')
         \<and> (rest = [] \<or> last rest \<noteq> CHR ''/'')
         \<and> ''gs://bucket/logs/job/123'' = ''gs://'' @ rest)"
proof -
  have c: "convert_artifacts_url_to_gcs_path
       ''https://gcsweb-ci.apps.ci.l2s4.p1.openshiftapps.com/gcs/bucket/logs/job/123/''
     = Some ''gs://bucket/logs/job/123''"
    by (simp add: convert_artifacts_url_to_gcs_path_def rstrip_def)
  from convert_gcs_path_correct[of
       "''https://gcsweb-ci.apps.ci.l2s4.p1.openshiftapps.com/gcs/bucket/logs/job/123/''"] c
  show ?thesis by blast
qed

text \<open>A URL whose gateway segment comes after \<open>/gcs/\<close> is converted all the same.\<close>

theorem convert_gcs_path_reversed_counterexample:
  "\<not> spec_gateway_shape ''https://host/gcs/bucket/gcsweb-ci/''
   \<and> convert_artifacts_url_to_gcs_path ''https://host/gcs/bucket/gcsweb-ci/''
       = Some ''gs://bucket/gcsweb-ci''"
  by (simp add: spec_gateway_shape_def convert_artifacts_url_to_gcs_path_def rstrip_def)

section \<open>Time window\<close>

lemmas iso_defs = fromisoformat_seconds_def number_def digit_def utc_offset_def
  days_in_month_def days_from_civil_def is_leap_def replace_Z_def

lemma parse_noon: "fromisoformat_seconds ''2025-10-21T12:00:00+00:00'' = Some (Aware 1761048000000000)"
  by (simp add: iso_defs)

lemma parse_midnight: "parse_job_start_time ref_lib (JStr ''2025-10-21T00:00:00Z'') = Some (Aware 1761004800000000)"
  by (simp add: iso_defs ref_lib_def)

lemma parse_before: "parse_job_start_time ref_lib (JStr ''2025-10-20T23:59:59Z'') = Some (Aware 1761004799000000)"
  by (simp add: iso_defs ref_lib_def)

lemma parse_naive: "parse_job_start_time ref_lib (JStr ''2025-10-21T00:00:00'') = Some (Naive 1761004800000000)"
  by (simp add: iso_defs ref_lib_def)

text \<open>
  Claim C5, as the code has it.  The check answers \<open>False\<close> for a start time that
  is missing, false, \<open>Unknown\<close>, no string or rejected by the parser.  For a start
  time with a UTC offset, and when the cutoff exists, it answers whether the start is
  at or after \<open>now - hours_back\<close> hours: the lower bound is included.
\<close>

theorem is_within_time_window_correct:
  "(\<not> truthy st \<or> st = JStr ''Unknown'' \<or> parse_job_start_time L st = None
      \<longrightarrow> is_within_time_window L st h w = (Inr False, w))
   \<and> (\<forall>s. truthy st \<and> st \<noteq> JStr ''Unknown'' \<and> parse_job_start_time L st = Some (Aware s)
          \<and> cutoff_representable (clock w (ticks w)) h
      \<longrightarrow> is_within_time_window L st h w
            = (Inr (clock w (ticks w) - h * 3600000000 \<le> s), w\<lparr>ticks := Suc (ticks w)\<rparr>))"
  by (auto simp: is_within_time_window_def cutoff_representable_def now_def timedelta_hours_def
        datetime_sub_def)

theorem is_within_time_window_correct_witness:
  "fst (is_within_time_window ref_lib (JStr ''2025-10-21T00:00:00Z'') 12
          (world_at 1761048000000000)) = Inr True
   \<and> fst (is_within_time_window ref_lib (JStr ''2025-10-20T23:59:59Z'') 12
          (world_at 1761048000000000)) = Inr False
   \<and> fst (is_within_time_window ref_lib (JStr ''Unknown'') 12
          (world_at 1761048000000000)) = Inr False
   \<and> fst (is_within_time_window ref_lib JNull 12 (world_at 1761048000000000)) = Inr False"
proof -
  have r: "cutoff_representable (clock (world_at 1761048000000000)
               (ticks (world_at 1761048000000000))) 12"
    by (simp add: cutoff_representable_def world_at_def datetime_min_def datetime_max_def)
  have c: "clock (world_at 1761048000000000) (ticks (world_at 1761048000000000))
             = 1761048000000000"
    by (simp add: world_at_def)
  note T = is_within_time_window_correct[where L = ref_lib and h = 12
             and w = "world_at 1761048000000000"]
  have 1: "fst (is_within_time_window ref_lib (JStr ''2025-10-21T00:00:00Z'') 12
          (world_at 1761048000000000)) = Inr True"
    using T[of "JStr ''2025-10-21T00:00:00Z''"] parse_midnight r c by simp
  have 2: "fst (is_within_time_window ref_lib (JStr ''2025-10-20T23:59:59Z'') 12
          (world_at 1761048000000000)) = Inr False"
    using T[of "JStr ''2025-10-20T23:59:59Z''"] parse_before r c by simp
  have 3: "fst (is_within_time_window ref_lib (JStr ''Unknown'') 12
          (world_at 1761048000000000)) = Inr False"
    using T[of "JStr ''Unknown''"] by simp
  have 4: "fst (is_within_time_window ref_lib JNull 12 (world_at 1761048000000000)) = Inr False"
    using T[of JNull] by simp
  from 1 2 3 4 show ?thesis by simp
qed

text \<open>
  A start time without an offset parses to a naive \<open>datetime\<close> and the comparison
  raises \<open>TypeError\<close>; a window of 100000000 hours reaches before year 1 and the
  subtraction raises \<open>OverflowError\<close>.
\<close>

theorem is_within_time_window_raises_counterexample:
  "parse_job_start_time ref_lib (JStr ''2025-10-21T00:00:00'') = Some (Naive 1761004800000000)
   \<and> fst (is_within_time_window ref_lib (JStr ''2025-10-21T00:00:00'') 12
          (world_at 1761048000000000)) = Inl (Raised TypeError)
   \<and> parse_job_start_time ref_lib (JStr ''2025-10-21T00:00:00Z'') = Some (Aware 1761004800000000)
   \<and> (1761048000000000 :: int) - 100000000 * 3600000000 \<le> 1761004800000000
   \<and> fst (is_within_time_window ref_lib (JStr ''2025-10-21T00:00:00Z'') 100000000
          (world_at 1761048000000000)) = Inl (Raised OverflowError)"
  using parse_naive parse_midnight
  by (simp add: is_within_time_window_def now_def world_at_def timedelta_hours_def
        datetime_sub_def datetime_min_def datetime_max_def)

section \<open>The cache\<close>

lemma and_then_Inr [simp]: "and_then (Inr x, w) f = f x w"
  by (simp add: and_then_def)

lemma and_then_Inl [simp]: "and_then (Inl e, w) f = (Inl e, w)"
  by (simp add: and_then_def)

lemma timedelta_hours_1 [simp]: "timedelta_hours 1 = Some 3600000000"
  by (simp add: timedelta_hours_def)

text \<open>
  Claim C4, as the code has it.  An existing cache file is valid exactly while its age,
  the clock reading minus the file's modification time, is below the maximum age: at
  an age equal to the maximum it is already invalid.  An entry just written is
  returned by the next read if that read comes less than one hour after the write, and
  \<open>None\<close> is returned otherwise, with the file still in place.
\<close>

theorem cache_validity_age:
  "(files w cache_file = Some f \<and> timedelta_hours max_age = Some d
      \<longrightarrow> is_cache_valid cache_file max_age w
            = (Inr (clock w (ticks w) - mtime f < max_age * 3600000000),
               w\<lparr>ticks := Suc (ticks w)\<rparr>))
   \<and> (writable w (get_cache_file_path job)
      \<longrightarrow> fst (load_cached_job_data job (save_job_data_to_cache L job builds w))
            = Inr (if clock w (ticks w + 2) - clock w (Suc (ticks w)) < 3600000000
                   then builds else JNull)
          \<and> files (snd (load_cached_job_data job (save_job_data_to_cache L job builds w)))
               (get_cache_file_path job) \<noteq> None)"
  by (auto simp: is_cache_valid_def now_def timedelta_hours_def load_cached_job_data_def
        save_job_data_to_cache_def Let_def)

theorem cache_validity_age_witness:
  "fst (load_cached_job_data ''job''
          (save_job_data_to_cache ref_lib ''job'' sample_builds
             (aging_world 1761048000000000 3540000000))) = Inr sample_builds
   \<and> fst (load_cached_job_data ''job''
          (save_job_data_to_cache ref_lib ''job'' sample_builds
             (aging_world 1761048000000000 3660000000))) = Inr JNull
   \<and> files (snd (load_cached_job_data ''job''
          (save_job_data_to_cache ref_lib ''job'' sample_builds
             (aging_world 1761048000000000 3660000000))))
        (get_cache_file_path ''job'') \<noteq> None"
proof -
  have w: "writable (aging_world 1761048000000000 age) (get_cache_file_path ''job'')" for age
    by (simp add: aging_world_def world_at_def)
  have c: "clock (aging_world 1761048000000000 age)
             (ticks (aging_world 1761048000000000 age) + 2)
           - clock (aging_world 1761048000000000 age)
               (Suc (ticks (aging_world 1761048000000000 age))) = age" for age
    by (simp add: aging_world_def world_at_def clock_aging_def)
  note T = cache_validity_age[where job = "''job''" and L = ref_lib and builds = sample_builds]
  from T[where w = "aging_world 1761048000000000 3540000000"] w[of 3540000000] c[of 3540000000]
  have 1: "fst (load_cached_job_data ''job''
          (save_job_data_to_cache ref_lib ''job'' sample_builds
             (aging_world 1761048000000000 3540000000))) = Inr sample_builds"
    by simp
  from T[where w = "aging_world 1761048000000000 3660000000"] w[of 3660000000] c[of 3660000000]
  have 2: "fst (load_cached_job_data ''job''
          (save_job_data_to_cache ref_lib ''job'' sample_builds
             (aging_world 1761048000000000 3660000000))) = Inr JNull
   \<and> files (snd (load_cached_job_data ''job''
          (save_job_data_to_cache ref_lib ''job'' sample_builds
             (aging_world 1761048000000000 3660000000))))
        (get_cache_file_path ''job'') \<noteq> None"
    by simp
  from 1 2 show ?thesis by simp
qed

text \<open>At an age of exactly one hour the entry's age does not exceed the maximum, and
  the read returns \<open>None\<close>.\<close>

theorem cache_invalid_at_max_age_counterexample:
  "\<not> ((3600000000 :: int) > 1 * 3600000000)
   \<and> sample_builds \<noteq> JNull
   \<and> fst (load_cached_job_data ''job''
          (save_job_data_to_cache ref_lib ''job'' sample_builds
             (aging_world 1761048000000000 3600000000))) = Inr JNull"
  by (simp add: sample_builds_def load_cached_job_data_def save_job_data_to_cache_def
        is_cache_valid_def now_def aging_world_def world_at_def clock_aging_def Let_def
        get_cache_file_path_def)

section \<open>Extraction of the build records\<close>


lemma sample_search: "re_search_all_builds sample_page = Some sample_json_text"
  unfolding sample_page_def sample_json_text_def
  by (simp add: greedy_group_def)

lemma sample_decode: "json_decode sample_json_text = Some sample_builds"
  unfolding sample_json_text_def sample_builds_def by code_simp





section \<open>Fetching the builds\<close>

lemmas cache_defs = fetch_builds_def load_cached_job_data_def is_cache_valid_def
  save_job_data_to_cache_def fetch_job_history_def extract_builds_json_def
  requests_get_def now_def print_def Let_def

lemma sample_builds_not_None: "sample_builds \<noteq> JNull"
  by (simp add: sample_builds_def)

lemma ref_urljoin [simp]: "urljoin ref_lib b u = b @ u"
  by (simp add: ref_lib_def)

lemma ref_json_loads [simp]: "json_loads ref_lib = json_decode"
  by (simp add: ref_lib_def)

lemma dashboard_world_simps [simp]:
  "http_get (dashboard_world t) (BASE_URL @ ''job'') = Some sample_page"
  "files (dashboard_world t) p = None"
  "writable (dashboard_world t) p"
  "fetched (dashboard_world t) = []"
  "ticks (dashboard_world t) = 0"
  "clock (dashboard_world t) n = t"
  by (simp_all add: dashboard_world_def world_at_def)

lemma world_at_simps [simp]:
  "http_get (world_at t) u = None"
  "files (world_at t) p = None"
  "writable (world_at t) p"
  "fetched (world_at t) = []"
  "ticks (world_at t) = 0"
  "clock (world_at t) n = t"
  by (simp_all add: world_at_def)

lemma with_file_simps [simp]:
  "files (with_file f w) (get_cache_file_path ''job'') = Some f"
  "http_get (with_file f w) = http_get w"
  "fetched (with_file f w) = fetched w"
  "ticks (with_file f w) = ticks w"
  "clock (with_file f w) = clock w"
  "writable (with_file f w) = writable w"
  by (simp_all add: with_file_def)

text \<open>
  Claim C3.  With \<open>use_cache\<close>, a cache file younger than one hour whose document
  has a \<open>builds\<close> entry other than \<open>None\<close> is returned as it is, and no URL is
  requested.  With no file, or a file of one hour or more, the dashboard page of the job
  is requested and the extracted builds are returned and, where the file can be written,
  stored.  Without \<open>use_cache\<close> the page is requested, the extracted builds are
  returned and the cache files stay as they were.
\<close>

theorem fetch_builds_cache_policy:
  "(files w (get_cache_file_path job) = Some f
      \<and> clock w (ticks w) - mtime f < 3600000000
      \<and> content f = Doc (JObj d) \<and> map_of d ''builds'' = Some b \<and> b \<noteq> JNull
    \<longrightarrow> fst (fetch_builds L job True w) = Inr b
        \<and> fetched (snd (fetch_builds L job True w)) = fetched w
        \<and> files (snd (fetch_builds L job True w)) = files w)
   \<and> ((files w (get_cache_file_path job) = None
        \<or> (files w (get_cache_file_path job) = Some f
            \<and> \<not> clock w (ticks w) - mtime f < 3600000000))
      \<and> http_get w (urljoin L BASE_URL job) = Some html
      \<and> re_search_all_builds html = Some js \<and> json_loads L js = Some b
    \<longrightarrow> fst (fetch_builds L job True w) = Inr b
        \<and> fetched (snd (fetch_builds L job True w)) = urljoin L BASE_URL job # fetched w
        \<and> (writable w (get_cache_file_path job)
             \<longrightarrow> (\<exists>m c. files (snd (fetch_builds L job True w)) (get_cache_file_path job)
                    = Some \<lparr>mtime = m,
                            content = Doc (JObj [(''job_name'', JStr job),
                                                 (''cached_at'', JStr c),
                                                 (''builds'', b)])\<rparr>)))
   \<and> (http_get w (urljoin L BASE_URL job) = Some html
      \<and> re_search_all_builds html = Some js \<and> json_loads L js = Some b
    \<longrightarrow> fst (fetch_builds L job False w) = Inr b)
   \<and> fetched (snd (fetch_builds L job False w)) = urljoin L BASE_URL job # fetched w
   \<and> files (snd (fetch_builds L job False w)) = files w"
  by (auto simp: cache_defs split: option.splits)

theorem fetch_builds_cache_policy_witness:
  "fst (fetch_builds ref_lib ''job'' True
          (with_file \<lparr>mtime = 0, content = Doc sample_entry\<rparr> (world_at 3540000000)))
     = Inr sample_builds
   \<and> fetched (snd (fetch_builds ref_lib ''job'' True
          (with_file \<lparr>mtime = 0, content = Doc sample_entry\<rparr> (world_at 3540000000)))) = []
   \<and> fst (fetch_builds ref_lib ''job'' True (dashboard_world 0)) = Inr sample_builds
   \<and> fetched (snd (fetch_builds ref_lib ''job'' True (dashboard_world 0))) = [BASE_URL @ ''job'']
   \<and> files (snd (fetch_builds ref_lib ''job'' True (dashboard_world 0)))
        (get_cache_file_path ''job'') \<noteq> None
   \<and> fst (fetch_builds ref_lib ''job'' False (dashboard_world 0)) = Inr sample_builds
   \<and> files (snd (fetch_builds ref_lib ''job'' False (dashboard_world 0)))
        (get_cache_file_path ''job'') = None"
proof -
  let ?hit = "with_file \<lparr>mtime = 0, content = Doc sample_entry\<rparr> (world_at 3540000000)"
  note T = fetch_builds_cache_policy[where L = ref_lib and job = "''job''" and b = sample_builds
             and html = sample_page and js = sample_json_text]
  have 1: "fst (fetch_builds ref_lib ''job'' True ?hit) = Inr sample_builds
           \<and> fetched (snd (fetch_builds ref_lib ''job'' True ?hit)) = []"
    using T[where w = ?hit and f = "\<lparr>mtime = 0, content = Doc sample_entry\<rparr>"
              and d = "[(''job_name'', JStr ''job''), (''cached_at'', JStr []),
                        (''builds'', sample_builds)]"]
      sample_builds_not_None
    by (simp add: sample_entry_def)
  have 2: "fst (fetch_builds ref_lib ''job'' True (dashboard_world 0)) = Inr sample_builds
     \<and> fetched (snd (fetch_builds ref_lib ''job'' True (dashboard_world 0))) = [BASE_URL @ ''job'']
     \<and> files (snd (fetch_builds ref_lib ''job'' True (dashboard_world 0)))
        (get_cache_file_path ''job'') \<noteq> None
     \<and> fst (fetch_builds ref_lib ''job'' False (dashboard_world 0)) = Inr sample_builds
     \<and> files (snd (fetch_builds ref_lib ''job'' False (dashboard_world 0)))
        (get_cache_file_path ''job'') = None"
    using T[where w = "dashboard_world 0"] sample_search sample_decode
    by auto
  from 1 2 show ?thesis by simp
qed



section \<open>The summary of one job\<close>

lemma well_formed_build_dict: "well_formed_build L b \<Longrightarrow> \<exists>d. b = JObj d"
  by (cases b) (auto simp: well_formed_build_def)

lemma failed_loop_filter:
  "(\<forall>b\<in>set bs. \<exists>d. b = JObj d) \<Longrightarrow> failed_loop bs = Inr (filter is_failure bs)"
  by (induction bs) (auto simp: is_failure_def)

lemma details_loop_map:
  "(\<forall>b\<in>set bs. \<exists>d. b = JObj d) \<Longrightarrow> details_loop bs = Inr (map spec_detail bs)"
  by (induction bs) (auto simp: spec_detail_def field_def)

lemma is_within_well_formed:
  assumes "well_formed_build L b" "clock w (ticks w) = t" "cutoff_representable t h"
    and "py_get b ''Started'' (JStr ''Unknown'') = Inr st"
  shows "fst (is_within_time_window L st h w) = Inr (spec_in_window L t h b)"
    and "clock (snd (is_within_time_window L st h w)) = clock w"
    and "http_get (snd (is_within_time_window L st h w)) = http_get w"
    and "files (snd (is_within_time_window L st h w)) = files w"
    and "fetched (snd (is_within_time_window L st h w)) = fetched w"
    and "printed (snd (is_within_time_window L st h w)) = printed w"
proof -
  from assms(1) obtain d where d: "b = JObj d" by (auto dest: well_formed_build_dict)
  have st: "field b ''Started'' = st" using assms(4) by (simp add: field_def)
  have nn: "parse_job_start_time L st \<noteq> Some (Naive s)" for s
    using assms(1) st d by (auto simp: well_formed_build_def split: option.splits pydatetime.splits)
  show "fst (is_within_time_window L st h w) = Inr (spec_in_window L t h b)"
    using assms(2,3,4) nn
    by (auto simp: is_within_time_window_def spec_in_window_def now_def
          cutoff_representable_def timedelta_hours_def datetime_sub_def
          split: option.splits pydatetime.splits)
  show "clock (snd (is_within_time_window L st h w)) = clock w"
    "http_get (snd (is_within_time_window L st h w)) = http_get w"
    "files (snd (is_within_time_window L st h w)) = files w"
    "fetched (snd (is_within_time_window L st h w)) = fetched w"
    "printed (snd (is_within_time_window L st h w)) = printed w"
    by (auto simp: is_within_time_window_def now_def split: option.splits pydatetime.splits)
qed

lemma window_loop_filter:
  assumes "\<forall>b\<in>set jobs. well_formed_build L b" "\<forall>n. clock w n = t" "cutoff_representable t h"
  shows "fst (window_loop L h jobs w) = Inr (filter (spec_in_window L t h) jobs)
         \<and> clock (snd (window_loop L h jobs w)) = clock w
         \<and> http_get (snd (window_loop L h jobs w)) = http_get w
         \<and> files (snd (window_loop L h jobs w)) = files w
         \<and> fetched (snd (window_loop L h jobs w)) = fetched w
         \<and> printed (snd (window_loop L h jobs w)) = printed w"
  using assms
proof (induction jobs arbitrary: w)
  case Nil
  then show ?case by simp
next
  case (Cons job jobs)
  from Cons.prems(1) obtain d where d: "job = JObj d"
    by (auto dest: well_formed_build_dict)
  obtain st where st: "py_get job ''Started'' (JStr ''Unknown'') = Inr st"
    using d by simp
  have wf: "well_formed_build L job" using Cons.prems(1) by simp
  have ck: "clock w (ticks w) = t" using Cons.prems(2) by simp
  note W = is_within_well_formed[OF wf ck Cons.prems(3) st]
  obtain r w1 where r: "is_within_time_window L st h w = (r, w1)" by (cases "is_within_time_window L st h w")
  with W have r1: "r = Inr (spec_in_window L t h job)" and c1: "clock w1 = clock w"
    and h1: "http_get w1 = http_get w" and f1: "files w1 = files w"
    and g1: "fetched w1 = fetched w" and p1: "printed w1 = printed w"
    by simp_all
  have "\<forall>n. clock w1 n = t" using c1 Cons.prems(2) by simp
  from Cons.IH[OF _ this Cons.prems(3)] Cons.prems(1)
  have IH: "fst (window_loop L h jobs w1) = Inr (filter (spec_in_window L t h) jobs)
         \<and> clock (snd (window_loop L h jobs w1)) = clock w1
         \<and> http_get (snd (window_loop L h jobs w1)) = http_get w1
         \<and> files (snd (window_loop L h jobs w1)) = files w1
         \<and> fetched (snd (window_loop L h jobs w1)) = fetched w1
         \<and> printed (snd (window_loop L h jobs w1)) = printed w1"
    by simp
  obtain q w2 where q: "window_loop L h jobs w1 = (q, w2)" by (cases "window_loop L h jobs w1")
  with IH have q1: "q = Inr (filter (spec_in_window L t h) jobs)" by simp
  show ?case
    using st r r1 q q1 IH c1 h1 f1 g1 p1 by simp
qed

lemma fetch_builds_frame:
  "clock (snd (fetch_builds L job uc w)) = clock w
   \<and> http_get (snd (fetch_builds L job uc w)) = http_get w"
  by (auto simp: cache_defs and_then_def py_get.simps split: option.splits prod.splits sum.splits fcontent.splits)

lemma resolve_failed_fetch:
  "s \<noteq> [] \<Longrightarrow> http_get w (urljoin L PROW_BASE_URL s) = None \<Longrightarrow>
     resolve_artifacts_url L (JStr s) w
       = (Inr [], print (ErrorFetchingSpyglass (JStr s))
                    (w\<lparr>fetched := urljoin L PROW_BASE_URL s # fetched w\<rparr>))"
  by (simp add: resolve_artifacts_url_def fetch_spyglass_page_def requests_get_def)

lemma resolve_total:
  "(\<exists>s. link = JStr s) \<or> \<not> truthy link \<Longrightarrow> \<exists>u. fst (resolve_artifacts_url L link w) = Inr u"
  by (auto simp: resolve_artifacts_url_def fetch_spyglass_page_def requests_get_def
        extract_artifacts_url_def Let_def split: option.splits prod.splits)

lemma spyglass_url_of_total:
  "(\<exists>s. link = JStr s) \<or> \<not> truthy link \<Longrightarrow> \<exists>su. spyglass_url_of L link = Inr su"
  by (cases link) (auto simp: spyglass_url_of_def)

lemma latest_failed_info_well_formed:
  assumes "well_formed_build L x"
  shows "\<exists>i. fst (latest_failed_info L x w) = Inr i
           \<and> build_id i = field x ''ID'' \<and> started i = field x ''Started''
           \<and> duration i = field x ''Duration'' \<and> result i = field x ''Result''
           \<and> pr_numbers_of x = Inr (pr_numbers i)
           \<and> fst (resolve_artifacts_url L (link_of x) w) = Inr (artifacts_url i)"
proof -
  from assms obtain d where d: "x = JObj d" by (auto dest: well_formed_build_dict)
  from assms d obtain prs where prs: "pr_numbers_of x = Inr prs"
    by (auto simp: well_formed_build_def split: sum.splits)
  have lk: "(\<exists>s. link_of x = JStr s) \<or> \<not> truthy (link_of x)"
    using assms d by (auto simp: well_formed_build_def link_of_def split: sum.splits json.splits)
  from resolve_total[OF lk, of L w] obtain u where u: "fst (resolve_artifacts_url L (link_of x) w) = Inr u"
    by blast
  obtain w1 where w1: "resolve_artifacts_url L (link_of x) w = (Inr u, w1)"
    using u by (cases "resolve_artifacts_url L (link_of x) w") simp
  obtain su where su: "spyglass_url_of L (link_of x) = Inr su"
    using spyglass_url_of_total[OF lk] by blast
  have l2: "py_get x ''SpyglassLink'' (JStr []) = Inr (link_of x)"
    using d by (simp add: link_of_def)
  show ?thesis
    using d prs w1 su l2
    by (simp add: latest_failed_info_def field_def)
qed

lemma count_well_formed:
  assumes fb: "fst (fetch_builds L job uc w) = Inr (JArr bs)"
    and wf: "\<forall>b\<in>set bs. well_formed_build L b"
    and ck: "\<forall>n. clock w n = t"
    and cr: "cutoff_representable t h"
  shows "\<exists>s. fst (count_failed_jobs_in_window L job h uc w) = Inr s
           \<and> job_name s = job
           \<and> total_failures s = length (filter (spec_in_window L t h) (filter is_failure bs))
           \<and> failure_details s
               = map spec_detail (filter (spec_in_window L t h) (filter is_failure bs))
           \<and> (case filter (spec_in_window L t h) (filter is_failure bs) of
                 [] \<Rightarrow> latest_failed s = None
               | x # xs \<Rightarrow>
                   (\<exists>i. latest_failed s = Some i
                      \<and> build_id i = field x ''ID'' \<and> started i = field x ''Started''
                      \<and> duration i = field x ''Duration'' \<and> result i = field x ''Result''
                      \<and> pr_numbers_of x = Inr (pr_numbers i)
                      \<and> (\<forall>l. link_of x = JStr l \<and> l \<noteq> []
                              \<and> http_get w (urljoin L PROW_BASE_URL l) = None
                            \<longrightarrow> artifacts_url i = [])))"
proof -
  let ?failed = "filter is_failure bs"
  let ?inw = "filter (spec_in_window L t h) ?failed"
  obtain w1 where w1: "fetch_builds L job uc w = (Inr (JArr bs), w1)"
    using fb by (cases "fetch_builds L job uc w") simp
  have fr: "clock w1 = clock w" "http_get w1 = http_get w"
    using fetch_builds_frame[of L job uc w] w1 by simp_all
  have dicts: "\<forall>b\<in>set bs. \<exists>d. b = JObj d"
    using wf by (auto dest: well_formed_build_dict)
  have gf: "get_failed_jobs (JArr bs) = Inr ?failed"
    by (simp add: get_failed_jobs_def failed_loop_filter[OF dicts])
  have wf2: "\<forall>b\<in>set ?failed. well_formed_build L b" using wf by simp
  have ck1: "\<forall>n. clock w1 n = t" using ck fr by simp
  from window_loop_filter[OF wf2 ck1 cr]
  have wl: "fst (window_loop L h ?failed w1) = Inr ?inw"
    and wh: "http_get (snd (window_loop L h ?failed w1)) = http_get w1"
    by simp_all
  obtain w3 where w3: "window_loop L h ?failed w1 = (Inr ?inw, w3)"
    using wl by (cases "window_loop L h ?failed w1") simp
  have h3: "http_get w3 = http_get w" using wh w3 fr by simp
  have dl: "details_loop ?inw = Inr (map spec_detail ?inw)"
    using dicts by (intro details_loop_map) auto
  show ?thesis
  proof (cases ?inw)
    case Nil
    then show ?thesis
      using w1 gf w3 dl
      by (simp add: count_failed_jobs_in_window_def count_try_def)
  next
    case (Cons x xs)
    then have "x \<in> set ?inw" by simp
    then have wfx: "well_formed_build L x" using wf by auto
    from latest_failed_info_well_formed[OF wfx, of w3] obtain i where
      i: "fst (latest_failed_info L x w3) = Inr i"
         "build_id i = field x ''ID''" "started i = field x ''Started''"
         "duration i = field x ''Duration''" "result i = field x ''Result''"
         "pr_numbers_of x = Inr (pr_numbers i)"
         "fst (resolve_artifacts_url L (link_of x) w3) = Inr (artifacts_url i)"
      by blast
    obtain w4 where w4: "latest_failed_info L x w3 = (Inr i, w4)"
      using i(1) by (cases "latest_failed_info L x w3") simp
    have au: "artifacts_url i = []"
      if "link_of x = JStr l" "l \<noteq> []" "http_get w (urljoin L PROW_BASE_URL l) = None" for l
      using that i(7) h3 resolve_failed_fetch[of l w3 L] by simp
    have "fst (count_failed_jobs_in_window L job h uc w)
            = Inr \<lparr>job_name = job, total_failures = length ?inw,
                   latest_failed = Some i, failure_details = map spec_detail ?inw\<rparr>"
      using w1 gf w3 dl w4 Cons
      by (simp add: count_failed_jobs_in_window_def count_try_def)
    then show ?thesis
      using Cons i au by auto
  qed
qed

end
